theory Spec2Isabelle
  imports Main "HOL-Library.Sublist"
begin

section \<open>Message model (scene\_message.py)\<close>

text \<open>
  The classes of scene\_message.py share the fields of \<open>SceneMessage\<close> (message, id,
  source, meta, flags); a subclass adds at most one field of its own
  (\<open>from_choice\<close>, \<open>action\<close>, \<open>ts\<close>, \<open>sub_type\<close>) and sets the class attribute
  \<open>typ\<close>. The class of a message is the constructor of \<open>message_class\<close>, which
  carries the subclass field.
\<close>

datatype message_class =
    SceneMessage
  | CharacterMessage (from_choice: "string option")
  | NarratorMessage
  | DirectorMessage (action: string)
  | TimePassageMessage (message_ts: string)
  | ReinforcementMessage
  | ContextInvestigationMessage (sub_type: "string option")

text \<open>
  A key of a dict can be missing, or present with the value \<open>None\<close>, or present with
  a value.
\<close>

datatype 'a field = Missing | PyNone | Val 'a

text \<open>The exceptions that the modelled code can raise.\<close>

datatype py_error =
  IndexError | KeyError | TypeError | AttributeError | ValueError | ISO8601Error
  | UnboundLocalError | OverflowError

text \<open>
  \<open>meta\<close> is \<open>dict | None\<close>; the code reads the keys agent, function and arguments
  (the keyword arguments of the call that produced the message).
\<close>

record message_meta =
  meta_agent :: "string option"
  meta_function :: "string option"
  meta_arguments :: "(string \<times> string) list field"

record scene_message =
  message :: string
  msg_id :: int
  source :: string
  meta :: "message_meta option"
  flags :: nat
  cls :: message_class

fun typ_of_class :: "message_class \<Rightarrow> string" where
  "typ_of_class SceneMessage = ''scene''"
| "typ_of_class (CharacterMessage fc) = ''character''"
| "typ_of_class NarratorMessage = ''narrator''"
| "typ_of_class (DirectorMessage a) = ''director''"
| "typ_of_class (TimePassageMessage t) = ''time''"
| "typ_of_class ReinforcementMessage = ''reinforcement''"
| "typ_of_class (ContextInvestigationMessage st) = ''context_investigation''"

definition message_typ :: "scene_message \<Rightarrow> string" where
  "message_typ m = typ_of_class (cls m)"

text \<open>\<open>Flags.HIDDEN = 1\<close>; \<open>hidden\<close> is \<open>flags & HIDDEN\<close>, read as a truth value.\<close>

definition hidden :: "scene_message \<Rightarrow> bool" where
  "hidden m = odd (flags m)"

fun is_director :: "scene_message \<Rightarrow> bool" where
  "is_director m = (case cls m of DirectorMessage a \<Rightarrow> True | _ \<Rightarrow> False)"

fun is_reinforcement :: "scene_message \<Rightarrow> bool" where
  "is_reinforcement m = (case cls m of ReinforcementMessage \<Rightarrow> True | _ \<Rightarrow> False)"

fun is_character :: "scene_message \<Rightarrow> bool" where
  "is_character m = (case cls m of CharacterMessage fc \<Rightarrow> True | _ \<Rightarrow> False)"

fun is_time_passage :: "scene_message \<Rightarrow> bool" where
  "is_time_passage m = (case cls m of TimePassageMessage t \<Rightarrow> True | _ \<Rightarrow> False)"

section \<open>Rendering of messages (scene\_message.py)\<close>

text \<open>
  Strings are byte strings (UTF-8). Splitting at a colon, replacing an ASCII substring,
  removing trailing newlines and dropping an ASCII prefix act on the bytes as the Python
  methods act on the text. \<open>str.upper\<close>, \<open>str.lower\<close> and \<open>str.strip\<close> depend on the
  Unicode character database, and \<open>re.sub\<close> with a word-boundary pattern on the regex
  library; these four are parameters of the renderers.
\<close>

record text_lib =
  str_upper :: "string \<Rightarrow> string"
  str_lower :: "string \<Rightarrow> string"
  str_strip :: "string \<Rightarrow> string"
  re_sub_word :: "string \<Rightarrow> string \<Rightarrow> string \<Rightarrow> string"

definition nl :: string where
  "nl = [CHR 0x0A]"

definition before_colon :: "string \<Rightarrow> string" where
  "before_colon t = takeWhile (\<lambda>c. c \<noteq> CHR '':'') t"

text \<open>\<open>t.split(":", 1)[1]\<close>: IndexError when there is no colon.\<close>

definition after_colon :: "string \<Rightarrow> py_error + string" where
  "after_colon t =
     (case dropWhile (\<lambda>c. c \<noteq> CHR '':'') t of
        [] \<Rightarrow> Inl IndexError
      | c # rest \<Rightarrow> Inr rest)"

text \<open>
  \<open>t.replace(old, new)\<close> for a non-empty \<open>old\<close>; the counter skips the rest of an
  occurrence that has just been replaced.
\<close>

fun replace_from :: "string \<Rightarrow> string \<Rightarrow> nat \<Rightarrow> string \<Rightarrow> string" where
  "replace_from old new k [] = []"
| "replace_from old new (Suc k) (c # cs) = replace_from old new k cs"
| "replace_from old new 0 (c # cs) =
     (if old \<noteq> [] \<and> take (length old) (c # cs) = old
      then new @ replace_from old new (length old - 1) cs
      else c # replace_from old new 0 cs)"

definition py_replace :: "string \<Rightarrow> string \<Rightarrow> string \<Rightarrow> string" where
  "py_replace old new t = replace_from old new 0 t"

definition rstrip_nl :: "string \<Rightarrow> string" where
  "rstrip_nl t = rev (dropWhile (\<lambda>c. c = CHR 0x0A) (rev t))"

text \<open>\<open>CharacterMessage\<close>.\<close>

definition as_movie_script :: "text_lib \<Rightarrow> scene_message \<Rightarrow> py_error + string" where
  "as_movie_script lib m =
     (case after_colon (message m) of
        Inl e \<Rightarrow> Inl e
      | Inr rest \<Rightarrow>
          Inr (nl @ str_upper lib (before_colon (message m)) @ nl @ str_strip lib rest @ nl
               @ ''END-OF-LINE'' @ nl))"

text \<open>\<open>DirectorMessage\<close>.\<close>

definition transformed_message :: "scene_message \<Rightarrow> string" where
  "transformed_message m = py_replace ''Director instructs '' [] (message m)"

definition director_character_name :: "string \<Rightarrow> scene_message \<Rightarrow> string" where
  "director_character_name act m =
     (if act = ''actor_instruction'' then before_colon (transformed_message m) else [])"

definition dialogue :: "string \<Rightarrow> scene_message \<Rightarrow> py_error + string" where
  "dialogue act m =
     (if act = ''actor_instruction'' then after_colon (transformed_message m)
      else Inr (message m))"

definition instructions :: "text_lib \<Rightarrow> string \<Rightarrow> scene_message \<Rightarrow> py_error + string" where
  "instructions lib act m =
     (if act = ''actor_instruction'' then
        (case dialogue act m of
           Inl e \<Rightarrow> Inl e
         | Inr d \<Rightarrow>
             Inr (str_strip lib (py_replace ''To progress the scene, i want you to '' []
                    (py_replace [CHR 0x22] [] d))))
      else Inr (message m))"

definition as_inner_monologue :: "text_lib \<Rightarrow> string \<Rightarrow> scene_message \<Rightarrow> py_error + string" where
  "as_inner_monologue lib act m =
     (case instructions lib act m of
        Inl e \<Rightarrow> Inl e
      | Inr ins \<Rightarrow>
          (let low = str_lower lib ins in
           if director_character_name act m = [] then Inr low
           else
             Inr (director_character_name act m @ '' thinks: I should ''
                  @ re_sub_word lib ''you'' ''i''
                      (re_sub_word lib ''your'' ''my''
                        (re_sub_word lib ''yourself'' ''myself'' low)))))"

definition as_story_progression :: "text_lib \<Rightarrow> string \<Rightarrow> scene_message \<Rightarrow> py_error + string" where
  "as_story_progression lib act m =
     (case instructions lib act m of
        Inl e \<Rightarrow> Inl e
      | Inr ins \<Rightarrow> Inr (director_character_name act m @ [CHR 0x27] @ ''s next action: '' @ ins))"

definition director_as_format ::
  "text_lib \<Rightarrow> string \<Rightarrow> string \<Rightarrow> string \<Rightarrow> scene_message \<Rightarrow> py_error + string" where
  "director_as_format lib fmt mode act m =
     (case (if mode = ''internal_monologue'' then as_inner_monologue lib act m
            else as_story_progression lib act m) of
        Inl e \<Rightarrow> Inl e
      | Inr body \<Rightarrow>
          (if fmt = ''movie_script'' then Inr (nl @ ''('' @ body @ '')'' @ nl)
           else Inr (''# '' @ body)))"

text \<open>\<open>ReinforcementMessage\<close>: \<open>__str__\<close> unpacks \<open>source.split(":", 1)\<close> into two names.\<close>

definition reinforcement_str :: "scene_message \<Rightarrow> py_error + string" where
  "reinforcement_str m =
     (case after_colon (source m) of
        Inl e \<Rightarrow> Inl ValueError
      | Inr rest \<Rightarrow>
          Inr (''# Internal note for '' @ before_colon rest @ '' - '' @ before_colon (source m)
               @ nl @ message m))"

text \<open>
  \<open>ContextInvestigationMessage\<close>. \<open>source_arguments\<close> is
  \<open>(self.meta or {}).get("arguments", {})\<close>: without the key it is the empty dict, with
  the value \<open>None\<close> the call of \<open>.get\<close> on it raises AttributeError.
\<close>

definition source_argument :: "scene_message \<Rightarrow> string \<Rightarrow> string \<Rightarrow> py_error + string" where
  "source_argument m key dflt =
     (case meta m of
        None \<Rightarrow> Inr dflt
      | Some mt \<Rightarrow>
          (case meta_arguments mt of
             Missing \<Rightarrow> Inr dflt
           | PyNone \<Rightarrow> Inl AttributeError
           | Val args \<Rightarrow> Inr (case map_of args key of None \<Rightarrow> dflt | Some v \<Rightarrow> v)))"

definition title :: "string option \<Rightarrow> scene_message \<Rightarrow> py_error + string" where
  "title st m =
     (if st = Some ''visual-character''
      then (case source_argument m ''character'' ''character'' of
              Inl e \<Rightarrow> Inl e
            | Inr who \<Rightarrow> Inr (''Visual description of '' @ who @ '' in the current moment''))
      else if st = Some ''visual-scene'' then Inr ''Visual description of the current moment''
      else if st = Some ''query''
      then (case source_argument m ''query'' ''query'' of
              Inl e \<Rightarrow> Inl e
            | Inr q \<Rightarrow> Inr (''Query: '' @ q))
      else Inr ''Internal note'')"

definition context_investigation_str :: "string option \<Rightarrow> scene_message \<Rightarrow> py_error + string" where
  "context_investigation_str st m =
     (case title st m of
        Inl e \<Rightarrow> Inl e
      | Inr t \<Rightarrow> Inr (''# '' @ t @ '': '' @ message m))"

text \<open>\<open>message.as_format(format, mode=mode)\<close>, by class.\<close>

definition as_format :: "text_lib \<Rightarrow> string \<Rightarrow> string \<Rightarrow> scene_message \<Rightarrow> py_error + string" where
  "as_format lib fmt mode m =
     (case cls m of
        CharacterMessage fc \<Rightarrow>
          (if fmt = ''movie_script'' then as_movie_script lib m else Inr (message m))
      | DirectorMessage act \<Rightarrow> director_as_format lib fmt mode act m
      | ReinforcementMessage \<Rightarrow>
          (if fmt = ''movie_script''
           then (case reinforcement_str m of
                   Inl e \<Rightarrow> Inl e
                 | Inr t \<Rightarrow> Inr (nl @ ''('' @ drop 2 t @ '')'' @ nl))
           else Inr (nl @ message m @ nl))
      | ContextInvestigationMessage st \<Rightarrow>
          (if fmt = ''movie_script''
           then (case context_investigation_str st m of
                   Inl e \<Rightarrow> Inl e
                 | Inr t \<Rightarrow> Inr (py_replace ''*'' [] (nl @ ''('' @ drop 2 t @ '')'' @ nl)))
           else Inr (py_replace ''*'' [] (nl @ message m @ nl)))
      | _ \<Rightarrow>
          (if fmt = ''movie_script'' then Inr (rstrip_nl (message m) @ nl)
           else Inr (message m)))"

text \<open>
  \<open>str(message)\<close>, by class; the Director's \<open>__str__\<close> is \<open>as_format("chat")\<close> with the
  default mode.
\<close>

definition message_str :: "text_lib \<Rightarrow> scene_message \<Rightarrow> py_error + string" where
  "message_str lib m =
     (case cls m of
        DirectorMessage act \<Rightarrow> director_as_format lib ''chat'' ''direction'' act m
      | ReinforcementMessage \<Rightarrow> reinforcement_str m
      | ContextInvestigationMessage st \<Rightarrow> context_investigation_str st m
      | _ \<Rightarrow> Inr (message m))"

section \<open>History store: collect\_messages\<close>

text \<open>
  \<open>Scene.collect_messages(typ, source, max_iterations, max_messages)\<close>. The parameters
  \<open>typ\<close> and \<open>source\<close> default to \<open>None\<close>; \<open>not typ\<close> holds for \<open>None\<close> and for the
  empty string.
\<close>

definition py_not_str :: "string option \<Rightarrow> bool" where
  "py_not_str s = (s = None \<or> s = Some [])"

definition collect_match :: "string option \<Rightarrow> string option \<Rightarrow> scene_message \<Rightarrow> bool" where
  "collect_match ty src m =
     ((py_not_str ty \<or> Some (message_typ m) = ty) \<and> (py_not_str src \<or> Some (source m) = src))"

text \<open>
  The loop \<open>for idx in range(len(self.history) - 1, -1, -1)\<close> walks the reversed
  history; the loop state is \<open>messages\<close>, \<open>iterations\<close> and \<open>collected\<close>, and each
  \<open>break\<close> returns \<open>messages\<close>.
\<close>

fun collect_loop ::
  "string option \<Rightarrow> string option \<Rightarrow> int \<Rightarrow> int option \<Rightarrow> scene_message list
   \<Rightarrow> scene_message list \<Rightarrow> int \<Rightarrow> int \<Rightarrow> scene_message list" where
  "collect_loop ty src max_iterations max_messages [] messages iterations collected = messages"
| "collect_loop ty src max_iterations max_messages (m # older) messages iterations collected =
     (if collect_match ty src m then
        (if (case max_messages of None \<Rightarrow> False | Some k \<Rightarrow> collected + 1 \<ge> k)
         then messages @ [m]
         else if iterations + 1 \<ge> max_iterations then messages @ [m]
         else collect_loop ty src max_iterations max_messages older
                (messages @ [m]) (iterations + 1) (collected + 1))
      else if iterations + 1 \<ge> max_iterations then messages
      else collect_loop ty src max_iterations max_messages older
             messages (iterations + 1) collected)"

definition collect_messages ::
  "string option \<Rightarrow> string option \<Rightarrow> int \<Rightarrow> int option \<Rightarrow> scene_message list
   \<Rightarrow> scene_message list" where
  "collect_messages ty src max_iterations max_messages history =
     collect_loop ty src max_iterations max_messages (rev history) [] 0 0"

text \<open>
  What the loop selects, in chronological order: the matches among the last
  \<open>max 1 max_iterations\<close> messages, and of these the last \<open>max 1 max_messages\<close> when
  \<open>max_messages\<close> is given.
\<close>

definition collect_spec ::
  "string option \<Rightarrow> string option \<Rightarrow> int \<Rightarrow> int option \<Rightarrow> scene_message list
   \<Rightarrow> scene_message list" where
  "collect_spec ty src max_iterations max_messages history =
     (let recent = drop (length history - nat (max 1 max_iterations)) history;
          found = filter (collect_match ty src) recent
      in case max_messages of
           None \<Rightarrow> found
         | Some k \<Rightarrow> drop (length found - nat (max 1 k)) found)"

section \<open>History store: edit\_message\<close>

text \<open>
  \<open>edit_message\<close> assigns to a field of a message object that the list
  \<open>self.history\<close> refers to, so the history is modelled here as the list of object
  references together with the objects they refer to: one object may stand at several
  positions of the list, and the assignment is then seen at each of them.
  The notification (\<open>emit\<close>) and the log line have no effect on the history.
\<close>

record message_store =
  history_refs :: "nat list"
  objects :: "nat \<Rightarrow> scene_message"

fun edit_loop ::
  "int \<Rightarrow> string \<Rightarrow> nat list \<Rightarrow> (nat \<Rightarrow> scene_message) \<Rightarrow> (nat \<Rightarrow> scene_message)" where
  "edit_loop message_id new [] objs = objs"
| "edit_loop message_id new (r # rest) objs =
     (if msg_id (objs r) = message_id
      then objs(r := (objs r)\<lparr>message := new\<rparr>)
      else edit_loop message_id new rest objs)"

definition edit_message :: "int \<Rightarrow> string \<Rightarrow> message_store \<Rightarrow> message_store" where
  "edit_message message_id new st =
     st\<lparr>objects := edit_loop message_id new (history_refs st) (objects st)\<rparr>"

text \<open>The history as a reader sees it: the objects in list order.\<close>

definition live_history :: "message_store \<Rightarrow> scene_message list" where
  "live_history st = map (objects st) (history_refs st)"

section \<open>Scene state\<close>

text \<open>
  An archived-history entry is a dict; the code tells a missing key, the value \<open>None\<close>
  (the fields of \<open>ArchiveEntry\<close> default to \<open>None\<close>) and a value apart
  (\<open>"end" in entry\<close>, \<open>entry.get("end") is None\<close>, \<open>entry["end"]\<close>).
\<close>

record archive_entry =
  entry_text :: string
  entry_ts :: "string field"
  entry_end :: "int field"

record layer_entry =
  layer_text :: string
  ts_start :: string
  ts_end :: string
  layer_end :: int

text \<open>
  The scene clock \<open>self.ts\<close> holds an ISO-8601 duration string; \<open>_fix_time\<close> can
  also store the \<open>ts\<close> value of an archive entry in it, which may be \<open>None\<close>.
\<close>

record scene =
  history :: "scene_message list"
  archived_history :: "archive_entry list"
  layered_history :: "layer_entry list list"
  ts :: "string option"

text \<open>
  A call that raises leaves the scene as it was mutated up to the raise; both outcomes
  carry the scene.
\<close>

datatype 'a outcome = Returned 'a | Raised py_error 'a

section \<open>History store: push\_history\<close>

text \<open>
  \<open>advance_time\<close> parses both durations with the isodate library, adds them and formats
  the sum. The library is not part of the repository; its composition
  \<open>duration_isoformat (parse_duration a + parse_duration b)\<close> is the parameter
  \<open>isodate_add\<close>, which fails (\<open>Inl\<close>) when an argument does not parse.
\<close>

type_synonym duration_adder = "string option \<Rightarrow> string \<Rightarrow> py_error + string"

definition advance_time ::
  "duration_adder \<Rightarrow> string \<Rightarrow> scene \<Rightarrow> scene outcome" where
  "advance_time isodate_add t s =
     (case isodate_add (ts s) t of
        Inl e \<Rightarrow> Raised e s
      | Inr t' \<Rightarrow> Returned (s\<lparr>ts := Some t'\<rparr>))"

text \<open>
  The inner loop of \<open>push_history\<close>: scan the history from the end and pop the first
  Director message with the given source.
\<close>

fun remove_first :: "('a \<Rightarrow> bool) \<Rightarrow> 'a list \<Rightarrow> 'a list" where
  "remove_first P [] = []"
| "remove_first P (x # xs) = (if P x then xs else x # remove_first P xs)"

definition same_director :: "string \<Rightarrow> scene_message \<Rightarrow> bool" where
  "same_director src m = (is_director m \<and> source m = src)"

definition pop_last_director :: "string \<Rightarrow> scene_message list \<Rightarrow> scene_message list" where
  "pop_last_director src h = rev (remove_first (same_director src) (rev h))"

text \<open>
  The first loop of \<open>push_history\<close>, over the messages to add: a Director message
  evicts, a TimePassage message advances the clock. The messages are added only after
  this loop (\<open>self.history.extend(messages)\<close>). The notifications sent afterwards do
  not change the history and are left out.
\<close>

fun push_prepare ::
  "duration_adder \<Rightarrow> scene_message list \<Rightarrow> scene \<Rightarrow> scene outcome" where
  "push_prepare isodate_add [] s = Returned s"
| "push_prepare isodate_add (m # ms) s =
     (case cls m of
        DirectorMessage a \<Rightarrow>
          push_prepare isodate_add ms (s\<lparr>history := pop_last_director (source m) (history s)\<rparr>)
      | TimePassageMessage t \<Rightarrow>
          (case advance_time isodate_add t s of
             Raised e s' \<Rightarrow> Raised e s'
           | Returned s' \<Rightarrow> push_prepare isodate_add ms s')
      | _ \<Rightarrow> push_prepare isodate_add ms s)"

definition push_history ::
  "duration_adder \<Rightarrow> scene_message list \<Rightarrow> scene \<Rightarrow> scene outcome" where
  "push_history isodate_add messages s =
     (case push_prepare isodate_add messages s of
        Raised e s' \<Rightarrow> Raised e s'
      | Returned s' \<Rightarrow> Returned (s'\<lparr>history := history s' @ messages\<rparr>))"

text \<open>The invariant of the data model: at most one Director message per source.\<close>

definition director_count :: "string \<Rightarrow> scene_message list \<Rightarrow> nat" where
  "director_count src h = length (filter (same_director src) h)"

definition one_director_per_source :: "scene_message list \<Rightarrow> bool" where
  "one_director_per_source h = (\<forall>src. director_count src h \<le> 1)"

section \<open>History store: rerun\<close>

text \<open>
  \<open>rerun\<close> up to the point where it hands over to one of the \<open>_rerun_*\<close> routines,
  which call the agents. The outcome says how the routine left: by \<open>return\<close>, by an
  uncaught exception, or by dispatching the popped message (with the Reinforcement
  messages popped before it, in pop order). The log line after the loop formats
  \<open>str(message)\<close>, which can raise.
\<close>

datatype rerun_target =
  RerunCharacter | RerunNarrator | RerunDirector | RerunContextInvestigation

datatype rerun_outcome =
    RerunReturned scene
  | RerunRaised py_error scene
  | RerunDispatched rerun_target scene_message "scene_message list" scene

text \<open>
  The \<open>while isinstance(message, ReinforcementMessage)\<close> loop, on the reversed
  history: \<open>self.history.pop()\<close> and then \<open>message = self.history[-1]\<close>, which raises
  IndexError once the history is empty.
\<close>

fun pop_reinforcements ::
  "scene_message list \<Rightarrow> scene_message list
   \<Rightarrow> py_error + (scene_message \<times> scene_message list \<times> scene_message list)" where
  "pop_reinforcements [] popped = Inl IndexError"
| "pop_reinforcements (m # older) popped =
     (if is_reinforcement m then pop_reinforcements older (popped @ [m])
      else Inr (m, m # older, popped))"

text \<open>\<open>not message.from_choice\<close>: only \<open>CharacterMessage\<close> has the attribute.\<close>

definition not_from_choice :: "scene_message \<Rightarrow> py_error + bool" where
  "not_from_choice m =
     (case cls m of
        CharacterMessage fc \<Rightarrow> Inr (fc = None \<or> fc = Some [])
      | _ \<Rightarrow> Inl AttributeError)"

definition rerun_dispatch :: "scene_message \<Rightarrow> rerun_target option" where
  "rerun_dispatch m =
     (case cls m of
        CharacterMessage fc \<Rightarrow> Some RerunCharacter
      | NarratorMessage \<Rightarrow> (if source m \<noteq> ''player'' then Some RerunNarrator else None)
      | DirectorMessage a \<Rightarrow> Some RerunDirector
      | ContextInvestigationMessage st \<Rightarrow> Some RerunContextInvestigation
      | _ \<Rightarrow> None)"

definition rerun :: "text_lib \<Rightarrow> scene \<Rightarrow> rerun_outcome" where
  "rerun lib s =
     (if history s = [] then RerunReturned s
      else
        (case pop_reinforcements (rev (history s)) [] of
           Inl e \<Rightarrow> RerunRaised e (s\<lparr>history := []\<rparr>)
         | Inr (m, remaining, popped) \<Rightarrow>
             (let s1 = s\<lparr>history := rev remaining\<rparr> in
              case message_str lib m of
                Inl e \<Rightarrow> RerunRaised e s1
              | Inr logged \<Rightarrow>
              if source m = ''player'' then
                (case not_from_choice m of
                   Inl e \<Rightarrow> RerunRaised e s1
                 | Inr True \<Rightarrow> RerunReturned s1
                 | Inr False \<Rightarrow>
                     (case rerun_dispatch m of
                        None \<Rightarrow> RerunReturned s1
                      | Some t \<Rightarrow>
                          RerunDispatched t m popped (s1\<lparr>history := butlast (history s1)\<rparr>)))
              else
                (case rerun_dispatch m of
                   None \<Rightarrow> RerunReturned s1
                 | Some t \<Rightarrow>
                     RerunDispatched t m popped (s1\<lparr>history := butlast (history s1)\<rparr>)))))"

section \<open>Time reconciliation: fix\_time\<close>

text \<open>
  \<open>util.iso8601_add\<close> is not among the sources; it is the parameter \<open>iso8601_add\<close> of
  the functions below: it adds a duration to a clock value and returns the sum as a
  string, or raises.
\<close>

text \<open>The value stored under a key that is present: \<open>None\<close> or a value.\<close>

fun field_value :: "'a field \<Rightarrow> 'a option" where
  "field_value (Val x) = Some x"
| "field_value PyNone = None"
| "field_value Missing = None"

fun value_field :: "'a option \<Rightarrow> 'a field" where
  "value_field (Some x) = Val x"
| "value_field None = PyNone"

text \<open>
  First loop of \<open>_fix_time\<close>: the \<open>ts\<close> of the last entry without an \<open>end\<close> key that
  stands before the first entry with one.
\<close>

fun starting_time_loop :: "archive_entry list \<Rightarrow> string option \<Rightarrow> string option" where
  "starting_time_loop [] starting_time = starting_time"
| "starting_time_loop (e # es) starting_time =
     (if entry_ts e \<noteq> Missing \<and> entry_end e = Missing
      then starting_time_loop es (field_value (entry_ts e))
      else if entry_end e \<noteq> Missing then starting_time
      else starting_time_loop es starting_time)"

text \<open>Second loop: \<open>(idx, message.ts)\<close> for every TimePassage message.\<close>

fun time_jumps_from :: "nat \<Rightarrow> scene_message list \<Rightarrow> (nat \<times> string) list" where
  "time_jumps_from idx [] = []"
| "time_jumps_from idx (m # ms) =
     (case cls m of
        TimePassageMessage t \<Rightarrow> (idx, t) # time_jumps_from (Suc idx) ms
      | _ \<Rightarrow> time_jumps_from (Suc idx) ms)"

text \<open>Third loop: the running sum; \<open>iso8601_add\<close> may raise.\<close>

fun cumulative_loop ::
  "duration_adder \<Rightarrow> string option \<Rightarrow> (nat \<times> string) list
   \<Rightarrow> py_error + (nat \<times> string) list" where
  "cumulative_loop iso8601_add t [] = Inr []"
| "cumulative_loop iso8601_add t ((idx, ts_jump) # rest) =
     (case iso8601_add t ts_jump of
        Inl e \<Rightarrow> Inl e
      | Inr t' \<Rightarrow>
          (case cumulative_loop iso8601_add (Some t') rest of
             Inl e \<Rightarrow> Inl e
           | Inr sums \<Rightarrow> Inr ((idx, t') # sums)))"

text \<open>
  The search for \<open>best_ts\<close>: the sum of the last jump whose index is below
  \<open>entry["end"]\<close>. Comparing an index with \<open>None\<close> raises TypeError.
\<close>

fun best_ts_loop :: "(nat \<times> string) list \<Rightarrow> int \<Rightarrow> string option \<Rightarrow> string option" where
  "best_ts_loop [] end_idx best_ts = best_ts"
| "best_ts_loop ((jump_idx, jump_ts) # rest) end_idx best_ts =
     (if int jump_idx < end_idx then best_ts_loop rest end_idx (Some jump_ts) else best_ts)"

definition find_best_ts ::
  "(nat \<times> string) list \<Rightarrow> int field \<Rightarrow> py_error + string option" where
  "find_best_ts jumps end_field =
     (case end_field of
        Val end_idx \<Rightarrow> Inr (best_ts_loop jumps end_idx None)
      | _ \<Rightarrow> (if jumps = [] then Inr None else Inl TypeError))"

text \<open>\<open>if best_ts:\<close> holds for a string that is not empty.\<close>

definition truthy :: "string option \<Rightarrow> bool" where
  "truthy t = (t \<noteq> None \<and> t \<noteq> Some [])"

text \<open>
  Fourth loop, over the archived history: the entries already visited, the
  entries still to visit, and the running \<open>ts\<close>. An exception leaves the entries
  visited so far with their new \<open>ts\<close>.
\<close>

fun apply_jumps ::
  "(nat \<times> string) list \<Rightarrow> archive_entry list \<Rightarrow> string option \<Rightarrow> archive_entry list
   \<Rightarrow> (py_error \<times> archive_entry list) + archive_entry list" where
  "apply_jumps jumps [] t visited = Inr visited"
| "apply_jumps jumps (e # es) t visited =
     (if entry_end e = Missing then apply_jumps jumps es t (visited @ [e])
      else
        (case find_best_ts jumps (entry_end e) of
           Inl err \<Rightarrow> Inl (err, visited @ e # es)
         | Inr best_ts \<Rightarrow>
             (if truthy best_ts
              then apply_jumps jumps es best_ts (visited @ [e\<lparr>entry_ts := value_field best_ts\<rparr>])
              else apply_jumps jumps es t (visited @ [e\<lparr>entry_ts := value_field t\<rparr>]))))"

text \<open>\<open>_fix_time\<close>.\<close>

definition fix_time_inner :: "duration_adder \<Rightarrow> scene \<Rightarrow> scene outcome" where
  "fix_time_inner iso8601_add s =
     (let starting_time = starting_time_loop (archived_history s) (Some ''PT0S'');
          time_jumps = time_jumps_from 0 (history s)
      in case cumulative_loop iso8601_add starting_time time_jumps of
           Inl e \<Rightarrow> Raised e s
         | Inr cumulative_time_jumps \<Rightarrow>
             (if cumulative_time_jumps = [] then Returned (s\<lparr>ts := starting_time\<rparr>)
              else
                (let ending_time = snd (last cumulative_time_jumps) in
                 case apply_jumps cumulative_time_jumps (archived_history s) starting_time [] of
                   Inl (e, entries) \<Rightarrow> Raised e (s\<lparr>archived_history := entries\<rparr>)
                 | Inr entries \<Rightarrow>
                     Returned (s\<lparr>archived_history := entries, ts := Some ending_time\<rparr>))))"

text \<open>\<open>fix_time\<close>: the \<open>try\<close> around \<open>_fix_time\<close>, which puts the old clock back.\<close>

definition fix_time :: "duration_adder \<Rightarrow> scene \<Rightarrow> scene" where
  "fix_time iso8601_add s =
     (case fix_time_inner iso8601_add s of
        Returned s' \<Rightarrow> s'
      | Raised e s' \<Rightarrow> s'\<lparr>ts := ts s\<rparr>)"

text \<open>
  What the first loop and the exceptions of the fourth loop depend on: the \<open>end\<close> field
  of every entry, and the \<open>ts\<close> field of the entries without an \<open>end\<close> key.
\<close>

definition entry_key :: "archive_entry \<Rightarrow> int field \<times> string field option" where
  "entry_key e = (entry_end e, if entry_end e = Missing then Some (entry_ts e) else None)"

fun entries_of :: "(py_error \<times> archive_entry list) + archive_entry list \<Rightarrow> archive_entry list" where
  "entries_of (Inl (e, l)) = l"
| "entries_of (Inr l) = l"

text \<open>The clock after \<open>fix_time\<close>, from the history, the archive and the old clock.\<close>

definition clock_after ::
  "duration_adder \<Rightarrow> scene_message list \<Rightarrow> archive_entry list \<Rightarrow> string option
   \<Rightarrow> string option" where
  "clock_after add h arch old =
     (let st = starting_time_loop arch (Some ''PT0S'') in
      case cumulative_loop add st (time_jumps_from 0 h) of
        Inl e \<Rightarrow> old
      | Inr J \<Rightarrow> if J = [] then st
                 else if isl (apply_jumps J arch st []) then old
                 else Some (snd (last J)))"

section \<open>Turn-taking controller: \_run\_game\_loop\<close>

text \<open>
  The \<open>while continue_scene and self.active\<close> loop of \<open>_run_game_loop\<close>. An exception
  is named by the first \<open>except\<close> clause of the loop that catches it, in the order of
  the code; \<open>BaseException\<close> stands for what no clause catches.
\<close>

datatype loop_exception =
    GenerationCancelled
  | TalemateInterrupt
  | LLMAccuracyError
  | TalemateError
  | ClientDisabledError
  | OtherException
  | BaseException

record character =
  char_name :: string
  is_player :: bool
  memory_dirty :: bool

record actor =
  is_Player :: bool
  actor_character :: "character option"

text \<open>
  What \<open>await actor.talk()\<close> does: raise, raise \<open>ActedAsCharacter\<close>, return nothing
  (\<open>not message\<close>), return the player's input (not a list), or return a list of
  messages.
\<close>

datatype talk_result =
    TalkRaises loop_exception
  | TalkActedAsCharacter
  | TalkNothing
  | TalkInput string
  | TalkMessages "string list"

text \<open>
  The collaborators of one pass of the loop: the actors' generation, whether the
  command manager takes the player's input as a command, and the setting
  \<open>auto_progress\<close>. The other awaited collaborators (memory, pins, signals, automated
  actions, autosave, status) are taken to return.
\<close>

record turn_oracle =
  talk :: "actor \<Rightarrow> talk_result"
  command_execute :: "string \<Rightarrow> bool"
  auto_progress :: bool

record loop_state =
  actors :: "actor list"
  active :: bool
  skip_to_player :: bool
  signal_game_loop :: bool
  next_actor :: "string option"
  cancel_requested :: bool
  active_actor :: "actor option"
  most_recent_ai_actor :: "actor option"
  saved :: bool

text \<open>
  \<open>for actor in self.actors\<close>: the exception that left the loop, if any, and the state
  then. \<open>continue\<close> goes on with the rest of the actors, \<open>break\<close> ends the loop.
\<close>

fun actor_loop ::
  "turn_oracle \<Rightarrow> actor list \<Rightarrow> loop_state \<Rightarrow> loop_exception option \<times> loop_state" where
  "actor_loop orc [] st = (None, st)"
| "actor_loop orc (a # rest) st =
     (if skip_to_player st \<and> \<not> is_Player a then actor_loop orc rest st
      else
        (let st1 = st\<lparr>skip_to_player := False\<rparr> in
         case actor_character a of
           None \<Rightarrow> actor_loop orc rest st1
         | Some c \<Rightarrow>
             (if \<not> auto_progress orc \<and> \<not> is_player c then actor_loop orc rest st1
              else if truthy (next_actor st1) \<and> Some (char_name c) \<noteq> next_actor st1
                      \<and> auto_progress orc
              then actor_loop orc rest st1
              else
                (let st2 = st1\<lparr>active_actor := Some a\<rparr> in
                 case talk orc a of
                   TalkRaises e \<Rightarrow> (Some e, st2)
                 | TalkActedAsCharacter \<Rightarrow> (None, st2\<lparr>signal_game_loop := False\<rparr>)
                 | TalkNothing \<Rightarrow> actor_loop orc rest st2
                 | TalkInput txt \<Rightarrow>
                     (if txt = [] then actor_loop orc rest st2
                      else if is_Player a then
                        (if command_execute orc txt
                         then (None, st2\<lparr>signal_game_loop := False\<rparr>)
                         else actor_loop orc rest st2)
                      else actor_loop orc rest
                             (st2\<lparr>saved := False, most_recent_ai_actor := Some a\<rparr>))
                 | TalkMessages ms \<Rightarrow>
                     (if ms = [] then actor_loop orc rest st2
                      else actor_loop orc rest
                             (st2\<lparr>saved := False, most_recent_ai_actor := Some a\<rparr>))))))"

text \<open>The body of the \<open>try\<close>.\<close>

definition try_block :: "turn_oracle \<Rightarrow> loop_state \<Rightarrow> loop_exception option \<times> loop_state" where
  "try_block orc st = actor_loop orc (actors st) (st\<lparr>signal_game_loop := True\<rparr>)"

text \<open>The \<open>except\<close> clauses: the loop goes on, or the exception leaves the loop.\<close>

datatype pass_result = Continue loop_state | Propagate loop_exception loop_state

fun except_clauses :: "loop_exception \<Rightarrow> loop_state \<Rightarrow> pass_result" where
  "except_clauses GenerationCancelled st =
     Continue (st\<lparr>signal_game_loop := False, skip_to_player := True,
                 next_actor := None, cancel_requested := False\<rparr>)"
| "except_clauses TalemateInterrupt st = Propagate TalemateInterrupt st"
| "except_clauses LLMAccuracyError st = Continue st"
| "except_clauses TalemateError st = Continue st"
| "except_clauses ClientDisabledError st =
     Continue (st\<lparr>signal_game_loop := False, skip_to_player := True\<rparr>)"
| "except_clauses OtherException st = Continue st"
| "except_clauses BaseException st = Propagate BaseException st"

definition loop_pass :: "turn_oracle \<Rightarrow> loop_state \<Rightarrow> pass_result" where
  "loop_pass orc st =
     (case try_block orc st of
        (None, st') \<Rightarrow> Continue st'
      | (Some e, st') \<Rightarrow> except_clauses e st')"

text \<open>
  The loop, with one oracle per pass: it ends when \<open>self.active\<close> is false at the test,
  it is left by an exception, or it is still running when the oracles are used up.
\<close>

datatype loop_exit =
    LoopEnded loop_state
  | LoopRaised loop_exception loop_state
  | StillRunning loop_state

fun run_game_loop :: "turn_oracle list \<Rightarrow> loop_state \<Rightarrow> loop_exit" where
  "run_game_loop [] st = (if active st then StillRunning st else LoopEnded st)"
| "run_game_loop (orc # orcs) st =
     (if \<not> active st then LoopEnded st
      else
        (case loop_pass orc st of
           Continue st' \<Rightarrow> run_game_loop orcs st'
         | Propagate e st' \<Rightarrow> LoopRaised e st'))"

section \<open>Context window assembler: context\_history\<close>

text \<open>
  The collaborators of \<open>context_history\<close> that are not among the sources, and the
  settings it reads from the agents:
  \<^item> \<open>util.count_tokens\<close>, applied to a list of strings, to a string and to a message;
  \<^item> \<open>util.prompt.condensed\<close> and \<open>util.iso8601_diff_to_human\<close> (which may raise);
  \<^item> the text library of the renderers;
  \<^item> \<open>conversation_format\<close>, \<open>actor_direction_mode\<close>, \<open>layered_history_enabled\<close>;
  \<^item> the value of \<open>self.get_intro()\<close>.
\<close>

record context_env =
  count_tokens_list :: "string list \<Rightarrow> nat"
  count_tokens_text :: "string \<Rightarrow> nat"
  count_tokens_message :: "scene_message \<Rightarrow> py_error + nat"
  condensed :: "string \<Rightarrow> string"
  iso8601_diff_to_human :: "string option \<Rightarrow> string option \<Rightarrow> py_error + string"
  str_lib :: text_lib
  conversation_format :: string
  actor_direction_mode :: string
  layered_history_enabled :: bool
  get_intro :: string

text \<open>The keyword arguments; \<open>keep_director\<close> is \<open>False\<close>, \<open>True\<close> or a source string.\<close>

datatype keep_director_arg = KeepFalse | KeepTrue | KeepSource string

record context_kwargs =
  keep_director :: keep_director_arg
  keep_context_investigation :: bool
  include_reinfocements :: bool
  assured_dialogue_num :: int
  chapter_labels :: bool

text \<open>
  \<open>int(0.5 * budget)\<close>: the product converts the integer to a double, rounding it to 53
  significant bits (ties to even) and raising OverflowError when the rounded value is
  \<open>2 ^ 1024\<close> or more; halving is exact, and \<open>int\<close> rounds towards zero.
\<close>

function bit_length :: "nat \<Rightarrow> nat" where
  "bit_length n = (if n = 0 then 0 else Suc (bit_length (n div 2)))"
  by pat_completeness auto
termination
  by (relation "measure id") auto

declare bit_length.simps [simp del]

definition float_round :: "nat \<Rightarrow> nat" where
  "float_round n =
     (if n < 2 ^ 53 then n
      else
        (let e = bit_length n - 53;
             q = n div 2 ^ e;
             r = n mod 2 ^ e;
             h = 2 ^ (e - 1)
         in (if h < r \<or> (r = h \<and> odd q) then q + 1 else q) * 2 ^ e))"

definition float_overflow :: "int \<Rightarrow> bool" where
  "float_overflow budget = (2 ^ 1024 \<le> float_round (nat \<bar>budget\<bar>))"

definition budget_half :: "int \<Rightarrow> int" where
  "budget_half budget =
     (if 0 \<le> budget then int (float_round (nat budget) div 2)
      else - int (float_round (nat (- budget)) div 2))"













text \<open>
  Dialogue lane. \<open>summarized_to\<close> is an index, or \<open>None\<close> when the last archive entry has
  \<open>end = None\<close>; a missing \<open>end\<close> key is the caught KeyError.
\<close>

definition summarized_to :: "scene \<Rightarrow> int option" where
  "summarized_to s =
     (if archived_history s = [] then Some 0
      else
        (case entry_end (last (archived_history s)) of
           Missing \<Rightarrow> Some 0
         | PyNone \<Rightarrow> None
         | Val e \<Rightarrow> (if e \<noteq> 0 \<and> e \<ge> int (length (history s)) then Some 0 else Some e)))"

definition keeps_director :: "keep_director_arg \<Rightarrow> bool" where
  "keeps_director kd =
     (case kd of KeepFalse \<Rightarrow> False | KeepTrue \<Rightarrow> True | KeepSource src \<Rightarrow> src \<noteq> [])"

text \<open>The \<open>continue\<close> tests on the class of the message.\<close>

definition skipped_by_class :: "context_kwargs \<Rightarrow> scene_message \<Rightarrow> bool" where
  "skipped_by_class kw m =
     (case cls m of
        ReinforcementMessage \<Rightarrow> \<not> include_reinfocements kw
      | DirectorMessage act \<Rightarrow>
          (\<not> keeps_director (keep_director kw)
           \<or> director_character_name act m = []
           \<or> (case keep_director kw of KeepSource src \<Rightarrow> source m \<noteq> src | _ \<Rightarrow> False))
      | ContextInvestigationMessage st \<Rightarrow> \<not> keep_context_investigation kw
      | _ \<Rightarrow> False)"

text \<open>How the backward scan over the history ended.\<close>

datatype scan_end = ScanComplete | CutoffReached | BudgetReached

fun dialogue_loop ::
  "context_env \<Rightarrow> context_kwargs \<Rightarrow> int option \<Rightarrow> int \<Rightarrow> (nat \<times> scene_message) list
   \<Rightarrow> string list \<Rightarrow> int \<Rightarrow> py_error + (string list \<times> int \<times> scan_end)" where
  "dialogue_loop env kw cutoff budget_dialogue [] parts_dialogue collected =
     Inr (parts_dialogue, collected, ScanComplete)"
| "dialogue_loop env kw cutoff budget_dialogue ((i, m) # rest) parts_dialogue collected =
     (case cutoff of
        None \<Rightarrow> Inl TypeError
      | Some c \<Rightarrow>
          (if int i < c \<and> collected \<ge> assured_dialogue_num kw
           then Inr (parts_dialogue, collected, CutoffReached)
           else if hidden m \<or> skipped_by_class kw m
           then dialogue_loop env kw cutoff budget_dialogue rest parts_dialogue collected
           else
             (case count_tokens_message env m of
                Inl err \<Rightarrow> Inl err
              | Inr n \<Rightarrow>
                  (if int (count_tokens_list env parts_dialogue) + int n > budget_dialogue
                   then Inr (parts_dialogue, collected, BudgetReached)
                   else
                     (case as_format (str_lib env) (conversation_format env)
                             (actor_direction_mode env) m of
                        Inl err \<Rightarrow> Inl err
                      | Inr rendered \<Rightarrow>
                          dialogue_loop env kw cutoff budget_dialogue rest
                            (rendered # parts_dialogue)
                            (if is_character m then collected + 1 else collected))))))"

definition dialogue_lane ::
  "context_env \<Rightarrow> context_kwargs \<Rightarrow> int \<Rightarrow> scene
   \<Rightarrow> py_error + (string list \<times> int \<times> scan_end)" where
  "dialogue_lane env kw budget s =
     dialogue_loop env kw (summarized_to s) (budget_half budget)
       (rev (enumerate 0 (history s))) [] 0"





text \<open>The Character messages of the history that are not hidden.\<close>

definition visible_characters :: "scene_message list \<Rightarrow> int" where
  "visible_characters h = int (length (filter (\<lambda>m. is_character m \<and> \<not> hidden m) h))"

section \<open>Sample data\<close>

definition alice_hi :: scene_message where
  "alice_hi = \<lparr>message = ''Alice: hi'', msg_id = 1, source = ''ai'', meta = None,
     flags = 0, cls = CharacterMessage None\<rparr>"

definition bob_hello :: scene_message where
  "bob_hello = \<lparr>message = ''Bob: hello'', msg_id = 2, source = ''ai'', meta = None,
     flags = 0, cls = CharacterMessage None\<rparr>"

definition player_line :: scene_message where
  "player_line = \<lparr>message = ''Elmer: I look around.'', msg_id = 3, source = ''player'',
     meta = None, flags = 0, cls = CharacterMessage None\<rparr>"

definition note_for_alice :: scene_message where
  "note_for_alice = \<lparr>message = ''She is tired.'', msg_id = 4, source = ''Mood?:Alice'',
     meta = None, flags = 0, cls = ReinforcementMessage\<rparr>"

definition direct_bob :: "int \<Rightarrow> string \<Rightarrow> scene_message" where
  "direct_bob i txt = \<lparr>message = txt, msg_id = i, source = ''Bob'', meta = None,
     flags = 0, cls = DirectorMessage ''actor_instruction''\<rparr>"

definition empty_scene :: scene where
  "empty_scene = \<lparr>history = [], archived_history = [], layered_history = [], ts = Some ''PT0S''\<rparr>"

definition no_isodate :: duration_adder where
  "no_isodate a b = Inl ISO8601Error"

definition sample_store :: message_store where
  "sample_store = \<lparr>history_refs = [0, 1, 0],
     objects = (\<lambda>r. if r = 0 then alice_hi else bob_hello)\<rparr>"

definition scene_with :: "scene_message list \<Rightarrow> scene" where
  "scene_with h = empty_scene\<lparr>history := h\<rparr>"

definition time_passage :: "int \<Rightarrow> string \<Rightarrow> scene_message" where
  "time_passage i d = \<lparr>message = ''Some time passes'', msg_id = i, source = ''manual'',
     meta = None, flags = 0, cls = TimePassageMessage d\<rparr>"

text \<open>
  A table of the sums the examples need, as the isodate library gives them; every other
  sum is refused.
\<close>

definition sample_add :: duration_adder where
  "sample_add a b =
     (if a = Some ''PT0S'' then Inr b
      else if a = Some ''P1D'' \<and> b = ''P2D'' then Inr ''P3D''
      else Inl ISO8601Error)"

definition sample_archive :: "archive_entry list" where
  "sample_archive =
     [\<lparr>entry_text = ''They met.'', entry_ts = Val ''PT0S'', entry_end = Val 1\<rparr>,
      \<lparr>entry_text = ''They left.'', entry_ts = PyNone, entry_end = PyNone\<rparr>]"

definition broken_scene :: scene where
  "broken_scene = \<lparr>history = [time_passage 8 ''P1D'', alice_hi],
     archived_history = sample_archive, layered_history = [], ts = Some ''PT5M''\<rparr>"

definition player_actor :: actor where
  "player_actor = \<lparr>is_Player = True,
     actor_character = Some \<lparr>char_name = ''Elmer'', is_player = True, memory_dirty = False\<rparr>\<rparr>"

definition npc_actor :: actor where
  "npc_actor = \<lparr>is_Player = False,
     actor_character = Some \<lparr>char_name = ''Alice'', is_player = False, memory_dirty = False\<rparr>\<rparr>"

text \<open>The player says something; the generation for Alice is cancelled.\<close>

definition cancelled_turn :: turn_oracle where
  "cancelled_turn = \<lparr>talk = (\<lambda>a. if is_Player a then TalkInput ''I wave.''
                                else TalkRaises GenerationCancelled),
     command_execute = (\<lambda>txt. False), auto_progress = True\<rparr>"

definition sample_loop_state :: loop_state where
  "sample_loop_state = \<lparr>actors = [player_actor, npc_actor], active = True,
     skip_to_player = False, signal_game_loop = True, next_actor = Some ''Alice'',
     cancel_requested = True, active_actor = None, most_recent_ai_actor = None,
     saved = True\<rparr>"

text \<open>
  A text library for ASCII text: \<open>upper\<close> and \<open>lower\<close> on the letters a to z, \<open>strip\<close>
  on the ASCII white space, and no word to substitute.
\<close>

definition is_space :: "char \<Rightarrow> bool" where
  "is_space c = (let n = (of_char c :: nat) in n = 32 \<or> (9 \<le> n \<and> n \<le> 13) \<or> (28 \<le> n \<and> n \<le> 31))"

definition upper_char :: "char \<Rightarrow> char" where
  "upper_char c = (let n = (of_char c :: nat) in if 97 \<le> n \<and> n \<le> 122 then char_of (n - 32) else c)"

definition lower_char :: "char \<Rightarrow> char" where
  "lower_char c = (let n = (of_char c :: nat) in if 65 \<le> n \<and> n \<le> 90 then char_of (n + 32) else c)"

definition ascii_lib :: text_lib where
  "ascii_lib = \<lparr>str_upper = map upper_char, str_lower = map lower_char,
     str_strip = (\<lambda>t. rev (dropWhile is_space (rev (dropWhile is_space t)))),
     re_sub_word = (\<lambda>w r t. t)\<rparr>"

text \<open>A token counter that counts characters, and the default keyword arguments.\<close>

definition sample_env :: context_env where
  "sample_env = \<lparr>count_tokens_list = (\<lambda>xs. sum_list (map length xs)),
     count_tokens_text = length,
     count_tokens_message = (\<lambda>m. Inr (length (message m))),
     condensed = (\<lambda>t. t),
     iso8601_diff_to_human = (\<lambda>a b. Inl ValueError),
     str_lib = ascii_lib,
     conversation_format = ''chat'',
     actor_direction_mode = ''direction'',
     layered_history_enabled = False,
     get_intro = ''The story begins.''\<rparr>"

definition default_kwargs :: context_kwargs where
  "default_kwargs = \<lparr>keep_director = KeepFalse, keep_context_investigation = True,
     include_reinfocements = True, assured_dialogue_num = 5, chapter_labels = False\<rparr>"





definition over_summarized :: scene where
  "over_summarized = \<lparr>history = [alice_hi, bob_hello],
     archived_history = [\<lparr>entry_text = ''They met.'', entry_ts = Val ''PT0S'', entry_end = Val 5\<rparr>],
     layered_history = [], ts = Some ''PT0S''\<rparr>"

section \<open>Properties\<close>

lemma collect_loop_eq:
  "collect_loop ty src mi mm xs msgs it col =
     msgs @ (let found = filter (collect_match ty src) (take (nat (max 1 (mi - it))) xs)
             in case mm of None \<Rightarrow> found
                | Some k \<Rightarrow> take (nat (max 1 (k - col))) found)"
proof (induction xs arbitrary: msgs it col)
  case Nil
  then show ?case by (simp split: option.splits)
next
  case (Cons m older)
  show ?case
  proof (cases "it + 1 \<ge> mi")
    case True
    then have tk: "take (nat (max 1 (mi - it))) (m # older) = [m]"
      by (simp add: take_Cons')
    show ?thesis
      apply (subst collect_loop.simps)
      apply (subst tk)
      using True apply (simp add: Let_def split: option.splits)
      done
  next
    case False
    then have "nat (max 1 (mi - it)) = Suc (nat (max 1 (mi - (it + 1))))"
      by arith
    then have tk: "take (nat (max 1 (mi - it))) (m # older) =
        m # take (nat (max 1 (mi - (it + 1)))) older"
      by (simp only: take_Suc_Cons)
    show ?thesis
    proof (cases mm)
      case None
      show ?thesis
        apply (subst collect_loop.simps)
        apply (subst tk)
        using False None apply (simp add: Cons.IH [unfolded None] Let_def)
        done
    next
      case (Some k)
      show ?thesis
      proof (cases "col + 1 \<ge> k")
        case True
        then have k1: "nat (max 1 (k - col)) = Suc 0" by simp
        show ?thesis
          apply (subst collect_loop.simps)
          apply (subst tk)
          apply (simp only: Some option.case k1 Let_def)
          using True False apply (simp add: Cons.IH [unfolded Some] Let_def)
          done
      next
        case nk: False
        then have k2: "nat (max 1 (k - col)) = Suc (nat (max 1 (k - (col + 1))))"
          by simp
        from nk have k3: "nat (k - col) = Suc (nat (k - (col + 1)))"
          by arith
        show ?thesis
          apply (subst collect_loop.simps)
          apply (subst tk)
          apply (simp only: Some option.case k2 Let_def)
          using nk False apply (simp add: Cons.IH [unfolded Some] Let_def k3)
          done
      qed
    qed
  qed
qed

lemma take_cap: "length ys = n \<Longrightarrow> take (n - (n - k)) ys = take k ys"
  by (cases "k \<le> n") simp_all

lemma rev_drop_last: "rev (drop (length xs - k) xs) = take k (rev xs)"
  by (simp add: rev_drop take_cap)

text \<open>
  C6 (amended). \<open>collect_messages\<close> returns the selected messages newest first (the
  order of the backward scan): the reverse of the chronological list of the matches
  among the last \<open>max 1 max_iterations\<close> messages, restricted to the last
  \<open>max 1 max_messages\<close> of them when \<open>max_messages\<close> is given.
\<close>

theorem collect_messages_newest_first:
  "collect_messages ty src max_iterations max_messages h =
     rev (collect_spec ty src max_iterations max_messages h)"
  by (simp add: collect_messages_def collect_spec_def collect_loop_eq Let_def
      rev_filter rev_drop_last split: option.splits)

text \<open>
  C6 (counterexample). With two matching messages the result is not in chronological
  order: the later message comes first.
\<close>

theorem collect_messages_not_chronological:
  "collect_messages None None 100 None [alice_hi, bob_hello] = [bob_hello, alice_hi]
   \<and> \<not> subseq [bob_hello, alice_hi] [alice_hi, bob_hello]"
proof -
  have "collect_messages None None 100 None [alice_hi, bob_hello] = [bob_hello, alice_hi]"
    by (simp add: collect_messages_def collect_match_def py_not_str_def)
  moreover have "\<not> subseq [bob_hello, alice_hi] [alice_hi, bob_hello]"
    by (simp add: alice_hi_def bob_hello_def)
  ultimately show ?thesis by simp
qed

lemma edit_loop_find:
  "edit_loop i new refs objs =
     (case find (\<lambda>r. msg_id (objs r) = i) refs of
        None \<Rightarrow> objs
      | Some r \<Rightarrow> objs(r := (objs r)\<lparr>message := new\<rparr>))"
  by (induction refs) (auto simp: fun_upd_def)

lemma edit_loop_fields:
  "msg_id (edit_loop i new refs objs r) = msg_id (objs r)
   \<and> source (edit_loop i new refs objs r) = source (objs r)
   \<and> meta (edit_loop i new refs objs r) = meta (objs r)
   \<and> flags (edit_loop i new refs objs r) = flags (objs r)
   \<and> cls (edit_loop i new refs objs r) = cls (objs r)"
  by (simp add: edit_loop_find split: option.splits)

text \<open>
  C9. \<open>edit_message\<close> leaves the list \<open>self.history\<close> as it is (same objects, same
  order, same length) and leaves id, source, meta, flags and class of every object as
  they are. If no message of the history has the id, nothing changes at all; otherwise
  the first message with the id gets the new content and every other object is
  unchanged.
\<close>

theorem edit_message_frame:
  "history_refs (edit_message i new st) = history_refs st
   \<and> length (live_history (edit_message i new st)) = length (live_history st)
   \<and> (\<forall>r. msg_id (objects (edit_message i new st) r) = msg_id (objects st r)
          \<and> source (objects (edit_message i new st) r) = source (objects st r)
          \<and> meta (objects (edit_message i new st) r) = meta (objects st r)
          \<and> flags (objects (edit_message i new st) r) = flags (objects st r)
          \<and> cls (objects (edit_message i new st) r) = cls (objects st r))
   \<and> (case find (\<lambda>r. msg_id (objects st r) = i) (history_refs st) of
         None \<Rightarrow> edit_message i new st = st
       | Some r \<Rightarrow>
           objects (edit_message i new st) r = (objects st r)\<lparr>message := new\<rparr>
           \<and> (\<forall>r'. r' \<noteq> r \<longrightarrow> objects (edit_message i new st) r' = objects st r'))"
proof -
  have a: "history_refs (edit_message i new st) = history_refs st"
    by (simp add: edit_message_def)
  have b: "length (live_history (edit_message i new st)) = length (live_history st)"
    by (simp add: live_history_def edit_message_def)
  have c: "objects (edit_message i new st) = edit_loop i new (history_refs st) (objects st)"
    by (simp add: edit_message_def)
  have d: "case find (\<lambda>r. msg_id (objects st r) = i) (history_refs st) of
         None \<Rightarrow> edit_message i new st = st
       | Some r \<Rightarrow>
           objects (edit_message i new st) r = (objects st r)\<lparr>message := new\<rparr>
           \<and> (\<forall>r'. r' \<noteq> r \<longrightarrow> objects (edit_message i new st) r' = objects st r')"
    by (simp add: edit_message_def edit_loop_find split: option.splits)
  show ?thesis
    using a b d by (simp add: c edit_loop_fields)
qed

theorem edit_message_frame_witness:
  "history_refs (edit_message 2 ''Bob: bye'' sample_store) = [0, 1, 0]
   \<and> objects (edit_message 2 ''Bob: bye'' sample_store) 1 = bob_hello\<lparr>message := ''Bob: bye''\<rparr>
   \<and> objects (edit_message 2 ''Bob: bye'' sample_store) 0 = alice_hi
   \<and> edit_message 7 ''Bob: bye'' sample_store = sample_store"
proof -
  have f2: "find (\<lambda>r. msg_id (objects sample_store r) = 2) (history_refs sample_store) = Some 1"
    by (simp add: sample_store_def alice_hi_def bob_hello_def)
  have f7: "find (\<lambda>r. msg_id (objects sample_store r) = 7) (history_refs sample_store) = None"
    by (simp add: sample_store_def alice_hi_def bob_hello_def)
  have o: "objects sample_store (Suc 0) = bob_hello" "objects sample_store 0 = alice_hi"
    "history_refs sample_store = [0, 1, 0]"
    by (simp_all add: sample_store_def)
  from edit_message_frame [of 2 "''Bob: bye''" sample_store]
  have "history_refs (edit_message 2 ''Bob: bye'' sample_store) = history_refs sample_store"
    and "case find (\<lambda>r. msg_id (objects sample_store r) = 2) (history_refs sample_store) of
         None \<Rightarrow> edit_message 2 ''Bob: bye'' sample_store = sample_store
       | Some r \<Rightarrow>
           objects (edit_message 2 ''Bob: bye'' sample_store) r =
             (objects sample_store r)\<lparr>message := ''Bob: bye''\<rparr>
           \<and> (\<forall>r'. r' \<noteq> r \<longrightarrow>
                 objects (edit_message 2 ''Bob: bye'' sample_store) r' = objects sample_store r')"
    by blast+
  then have two: "history_refs (edit_message 2 ''Bob: bye'' sample_store) = [0, 1, 0]"
    "objects (edit_message 2 ''Bob: bye'' sample_store) 1 = bob_hello\<lparr>message := ''Bob: bye''\<rparr>"
    "objects (edit_message 2 ''Bob: bye'' sample_store) 0 = alice_hi"
    unfolding f2 by (simp_all add: o)
  from edit_message_frame [of 7 "''Bob: bye''" sample_store]
  have "case find (\<lambda>r. msg_id (objects sample_store r) = 7) (history_refs sample_store) of
         None \<Rightarrow> edit_message 7 ''Bob: bye'' sample_store = sample_store
       | Some r \<Rightarrow>
           objects (edit_message 7 ''Bob: bye'' sample_store) r =
             (objects sample_store r)\<lparr>message := ''Bob: bye''\<rparr>
           \<and> (\<forall>r'. r' \<noteq> r \<longrightarrow>
                 objects (edit_message 7 ''Bob: bye'' sample_store) r' = objects sample_store r')"
    by blast
  then have seven: "edit_message 7 ''Bob: bye'' sample_store = sample_store"
    unfolding f7 by simp
  show ?thesis
    using two seven by simp
qed

lemma remove_first_same: "length (filter P (remove_first P xs)) = length (filter P xs) - 1"
  by (induction xs) auto

lemma remove_first_other: "(\<And>x. P x \<Longrightarrow> \<not> Q x) \<Longrightarrow> filter Q (remove_first P xs) = filter Q xs"
  by (induction xs) auto

lemma director_count_pop_same:
  "director_count src (pop_last_director src h) = director_count src h - 1"
  by (simp add: director_count_def pop_last_director_def rev_filter [symmetric] remove_first_same)

lemma director_count_pop_other:
  "src' \<noteq> src \<Longrightarrow> director_count src' (pop_last_director src h) = director_count src' h"
proof -
  assume ne: "src' \<noteq> src"
  have "filter (same_director src') (remove_first (same_director src) (rev h)) =
        filter (same_director src') (rev h)"
    by (rule remove_first_other) (use ne in \<open>auto simp: same_director_def\<close>)
  then show ?thesis
    by (simp add: director_count_def pop_last_director_def rev_filter [symmetric])
qed

lemma director_count_snoc:
  "director_count src (h @ [m]) = director_count src h + (if same_director src m then 1 else 0)"
  by (simp add: director_count_def)

text \<open>A call that adds one message keeps the invariant.\<close>

lemma push_history_single_keeps_invariant:
  assumes inv: "one_director_per_source (history s)"
    and push: "push_history adder [m] s = Returned s'"
  shows "one_director_per_source (history s')"
proof (cases "cls m")
  case (DirectorMessage act)
  with push have h: "history s' = pop_last_director (source m) (history s) @ [m]"
    by (auto simp: push_history_def)
  show ?thesis
    unfolding one_director_per_source_def
  proof
    fix src
    show "director_count src (history s') \<le> 1"
    proof (cases "src = source m")
      case True
      from inv have "director_count (source m) (history s) \<le> 1"
        by (simp add: one_director_per_source_def)
      then show ?thesis
        by (simp add: h True director_count_snoc director_count_pop_same)
    next
      case False
      then have "\<not> same_director src m" by (simp add: same_director_def)
      with inv False show ?thesis
        by (simp add: h director_count_snoc director_count_pop_other one_director_per_source_def)
    qed
  qed
next
  case (TimePassageMessage t)
  with push have h: "history s' = history s @ [m]"
    by (auto simp: push_history_def advance_time_def split: sum.splits)
  from TimePassageMessage have "\<And>src. \<not> same_director src m" by (simp add: same_director_def)
  with inv show ?thesis
    by (simp add: h one_director_per_source_def director_count_snoc)
qed (use inv push in \<open>auto simp: push_history_def one_director_per_source_def
      director_count_snoc same_director_def\<close>)

text \<open>
  C2 (the code at the failing input). One call that appends two Director messages with
  source Bob to an empty history leaves both in the history.
\<close>

theorem push_history_batch_keeps_both:
  "push_history no_isodate [direct_bob 5 ''Bob: wave'', direct_bob 6 ''Bob: sit''] empty_scene =
     Returned (scene_with [direct_bob 5 ''Bob: wave'', direct_bob 6 ''Bob: sit''])
   \<and> director_count ''Bob'' [direct_bob 5 ''Bob: wave'', direct_bob 6 ''Bob: sit''] = 2"
  by (simp add: push_history_def pop_last_director_def direct_bob_def empty_scene_def
      scene_with_def director_count_def same_director_def)

text \<open>With the player's line as the very last message, \<open>rerun\<close> changes nothing.\<close>

lemma rerun_player_line_last:
  assumes "history s = h @ [m]"
    and "cls m = CharacterMessage fc" and "fc = None \<or> fc = Some []"
    and "source m = ''player''"
  shows "rerun lib s = RerunReturned s"
  using assms by (auto simp: rerun_def message_str_def not_from_choice_def Let_def)

text \<open>
  C7 (the code at the failing input). The last message other than a Reinforcement
  message is the player's own line and has no \<open>from_choice\<close>; \<open>rerun\<close> returns, and the
  Reinforcement message that stood after the line is gone from the history.
\<close>

theorem rerun_player_line_drops_reinforcement:
  "rerun ascii_lib (scene_with [alice_hi, player_line, note_for_alice]) =
     RerunReturned (scene_with [alice_hi, player_line])"
  by (simp add: rerun_def message_str_def scene_with_def empty_scene_def player_line_def
      note_for_alice_def alice_hi_def not_from_choice_def)

lemma starting_time_key:
  "map entry_key es = map entry_key es' \<Longrightarrow>
   starting_time_loop es t = starting_time_loop es' t"
proof (induction es arbitrary: es' t)
  case Nil
  then show ?case by simp
next
  case (Cons e es)
  then obtain e' rest where es': "es' = e' # rest" by (cases es') auto
  with Cons.prems have k: "entry_key e = entry_key e'" and r: "map entry_key es = map entry_key rest"
    by simp_all
  from k have "entry_end e = entry_end e'" by (simp add: entry_key_def)
  moreover from k have "entry_end e = Missing \<Longrightarrow> entry_ts e = entry_ts e'"
    by (simp add: entry_key_def split: if_splits)
  ultimately show ?case
    using Cons.IH [OF r] by (simp add: es')
qed

lemma apply_jumps_key:
  "map entry_key (entries_of (apply_jumps J es t acc)) = map entry_key (acc @ es)"
proof (induction es arbitrary: t acc)
  case Nil
  then show ?case by simp
next
  case (Cons e es)
  show ?case
  proof (cases "entry_end e = Missing")
    case True
    then show ?thesis using Cons.IH [of t "acc @ [e]"] by simp
  next
    case False
    then have u: "\<And>v. entry_key (e\<lparr>entry_ts := v\<rparr>) = entry_key e"
      by (simp add: entry_key_def)
    show ?thesis
    proof (cases "find_best_ts J (entry_end e)")
      case (Inl err)
      then show ?thesis using False by simp
    next
      case (Inr best)
      show ?thesis
        using False Inr Cons.IH [of best "acc @ [e\<lparr>entry_ts := value_field best\<rparr>]"]
          Cons.IH [of t "acc @ [e\<lparr>entry_ts := value_field t\<rparr>]"]
        by (simp add: u)
    qed
  qed
qed

lemma apply_jumps_isl:
  "map entry_key es = map entry_key es' \<Longrightarrow>
   isl (apply_jumps J es t acc) = isl (apply_jumps J es' t' acc')"
proof (induction es arbitrary: es' t acc t' acc')
  case Nil
  then show ?case by simp
next
  case (Cons e es)
  then obtain e' rest where es': "es' = e' # rest" by (cases es') auto
  with Cons.prems have k: "entry_key e = entry_key e'" and r: "map entry_key es = map entry_key rest"
    by simp_all
  from k have en: "entry_end e = entry_end e'" by (simp add: entry_key_def)
  show ?case
    using Cons.IH [OF r] by (simp add: es' en split: sum.splits)
qed


lemma fix_time_ts: "ts (fix_time add s) = clock_after add (history s) (archived_history s) (ts s)"
  by (simp add: fix_time_def fix_time_inner_def clock_after_def Let_def
      split: sum.splits prod.splits)

lemma fix_time_history: "history (fix_time add s) = history s"
  by (simp add: fix_time_def fix_time_inner_def Let_def split: sum.splits prod.splits)

lemma apply_jumps_key_Inl:
  "apply_jumps J es t acc = Inl (e, l) \<Longrightarrow> map entry_key l = map entry_key (acc @ es)"
  using apply_jumps_key [of J es t acc] by simp

lemma apply_jumps_key_Inr:
  "apply_jumps J es t acc = Inr l \<Longrightarrow> map entry_key l = map entry_key (acc @ es)"
  using apply_jumps_key [of J es t acc] by simp

lemma fix_time_keys:
  "map entry_key (archived_history (fix_time add s)) = map entry_key (archived_history s)"
  by (auto simp: fix_time_def fix_time_inner_def Let_def
      dest: apply_jumps_key_Inl apply_jumps_key_Inr split: sum.splits prod.splits)

lemma clock_after_keys:
  assumes "map entry_key arch = map entry_key arch'"
  shows "clock_after add h arch old = clock_after add h arch' old"
proof -
  have st: "starting_time_loop arch (Some ''PT0S'') = starting_time_loop arch' (Some ''PT0S'')"
    using assms by (rule starting_time_key)
  have ap: "\<And>J t. isl (apply_jumps J arch t []) = isl (apply_jumps J arch' t [])"
    using assms by (rule apply_jumps_isl)
  show ?thesis
    by (simp add: clock_after_def Let_def st ap split: sum.splits)
qed

lemma clock_after_idem:
  "clock_after add h arch (clock_after add h arch old) = clock_after add h arch old"
  by (simp add: clock_after_def Let_def split: sum.splits)

text \<open>
  C5. Running \<open>fix_time\<close> a second time, with nothing changed in between, leaves the
  scene clock as the first run set it.
\<close>

theorem fix_time_idempotent:
  "ts (fix_time add (fix_time add s)) = ts (fix_time add s)"
  by (simp add: fix_time_ts fix_time_history clock_after_keys [OF fix_time_keys] clock_after_idem)

text \<open>
  C4. If \<open>_fix_time\<close> raises, the scene clock after \<open>fix_time\<close> is its old value (the
  clock had not been assigned before the raise either), and the history is untouched.
  \<open>fix_time\<close> itself returns a scene in every case.
\<close>

theorem fix_time_restores_clock:
  "fix_time_inner add s = Raised e s' \<Longrightarrow>
     fix_time add s = s'\<lparr>ts := ts s\<rparr> \<and> ts (fix_time add s) = ts s \<and> ts s' = ts s
     \<and> history (fix_time add s) = history s"
  by (auto simp: fix_time_def fix_time_inner_def Let_def split: sum.splits prod.splits if_splits)

theorem fix_time_restores_clock_witness:
  "fix_time_inner sample_add broken_scene =
     Raised TypeError (broken_scene\<lparr>archived_history :=
       [\<lparr>entry_text = ''They met.'', entry_ts = Val ''P1D'', entry_end = Val 1\<rparr>,
        \<lparr>entry_text = ''They left.'', entry_ts = PyNone, entry_end = PyNone\<rparr>]\<rparr>)
   \<and> ts (fix_time sample_add broken_scene) = Some ''PT5M''"
proof -
  have r: "fix_time_inner sample_add broken_scene =
     Raised TypeError (broken_scene\<lparr>archived_history :=
       [\<lparr>entry_text = ''They met.'', entry_ts = Val ''P1D'', entry_end = Val 1\<rparr>,
        \<lparr>entry_text = ''They left.'', entry_ts = PyNone, entry_end = PyNone\<rparr>]\<rparr>)"
    by (simp add: fix_time_inner_def broken_scene_def sample_archive_def sample_add_def
        time_passage_def alice_hi_def find_best_ts_def truthy_def Let_def)
  have "ts broken_scene = Some ''PT5M''"
    by (simp add: broken_scene_def)
  with fix_time_restores_clock [OF r] r show ?thesis
    by simp
qed

text \<open>
  C3. For the history [TimePassage P1D, Character "Alice: hi", TimePassage P2D] and an
  empty archived history, \<open>fix_time\<close> sets the scene clock to the sum of the two jumps
  on the base PT0S: with a duration adder that gives PT0S + P1D = P1D and
  P1D + P2D = P3D, the clock is P3D, three days.
\<close>

theorem fix_time_three_days:
  assumes "iso8601_add (Some ''PT0S'') ''P1D'' = Inr ''P1D''"
    and "iso8601_add (Some ''P1D'') ''P2D'' = Inr ''P3D''"
    and "history s = [time_passage i ''P1D'', alice_hi, time_passage j ''P2D'']"
    and "archived_history s = []"
  shows "ts (fix_time iso8601_add s) = Some ''P3D''"
  using assms
  by (simp add: fix_time_def fix_time_inner_def time_passage_def alice_hi_def Let_def)

theorem fix_time_three_days_witness:
  "ts (fix_time sample_add
        (scene_with [time_passage 1 ''P1D'', alice_hi, time_passage 2 ''P2D''])) = Some ''P3D''"
proof -
  have a: "sample_add (Some ''PT0S'') ''P1D'' = Inr ''P1D''"
    and b: "sample_add (Some ''P1D'') ''P2D'' = Inr ''P3D''"
    by (simp_all add: sample_add_def)
  have h: "history (scene_with [time_passage 1 ''P1D'', alice_hi, time_passage 2 ''P2D'']) =
      [time_passage 1 ''P1D'', alice_hi, time_passage 2 ''P2D'']"
    and r: "archived_history (scene_with [time_passage 1 ''P1D'', alice_hi, time_passage 2 ''P2D'']) = []"
    by (simp_all add: scene_with_def empty_scene_def)
  show ?thesis
    by (rule fix_time_three_days [OF a b h r])
qed

lemma actor_loop_frame:
  "actor_loop orc as st = (e, st') \<Longrightarrow> active st' = active st \<and> actors st' = actors st"
proof (induction as arbitrary: st e st')
  case Nil
  then show ?case by simp
next
  case (Cons a rest)
  from Cons.prems show ?case
    by (auto simp: Let_def split: if_splits option.splits talk_result.splits
        dest!: Cons.IH)
qed

text \<open>
  C8. When an actor's generation raises \<open>GenerationCancelled\<close> in a pass of the game
  loop, the loop catches it: the pass ends with \<open>next_actor\<close> reset to \<open>None\<close>,
  \<open>skip_to_player\<close> true and \<open>cancel_requested\<close> false, \<open>self.active\<close> is as it was, and
  the loop goes on with its next pass.
\<close>

theorem cancellation_is_caught:
  "try_block orc st = (Some GenerationCancelled, st') \<Longrightarrow>
     (\<exists>st''. loop_pass orc st = Continue st''
        \<and> next_actor st'' = None \<and> skip_to_player st'' \<and> \<not> cancel_requested st''
        \<and> \<not> signal_game_loop st'' \<and> active st'' = active st
        \<and> (active st \<longrightarrow> run_game_loop (orc # orcs) st = run_game_loop orcs st''))"
proof -
  assume tb: "try_block orc st = (Some GenerationCancelled, st')"
  then have "active st' = active st"
    using actor_loop_frame [of orc "actors st" "st\<lparr>signal_game_loop := True\<rparr>"]
    by (simp add: try_block_def)
  with tb show ?thesis
    by (simp add: loop_pass_def)
qed

theorem cancellation_is_caught_witness:
  "try_block cancelled_turn sample_loop_state =
     (Some GenerationCancelled, sample_loop_state\<lparr>active_actor := Some npc_actor\<rparr>)
   \<and> (\<exists>st''. loop_pass cancelled_turn sample_loop_state = Continue st''
        \<and> next_actor st'' = None \<and> skip_to_player st'' \<and> \<not> cancel_requested st''
        \<and> active st''
        \<and> run_game_loop [cancelled_turn, cancelled_turn] sample_loop_state =
            run_game_loop [cancelled_turn] st'')"
proof -
  have tb: "try_block cancelled_turn sample_loop_state =
      (Some GenerationCancelled, sample_loop_state\<lparr>active_actor := Some npc_actor\<rparr>)"
    by (simp add: try_block_def sample_loop_state_def cancelled_turn_def player_actor_def
        npc_actor_def truthy_def Let_def)
  have act: "active sample_loop_state"
    by (simp add: sample_loop_state_def)
  from cancellation_is_caught [OF tb, of "[cancelled_turn]"] act tb show ?thesis
    by auto
qed








lemma visible_characters_nonneg: "0 \<le> visible_characters h"
  by (simp add: visible_characters_def)



lemma skipped_floor [simp]:
  "skipped_by_class (kw\<lparr>assured_dialogue_num := a\<rparr>) m = skipped_by_class kw m"
  by (simp add: skipped_by_class_def split: message_class.splits)

lemma dialogue_floor_irrelevant:
  "dialogue_loop env (kw\<lparr>assured_dialogue_num := a\<rparr>) (Some 0) b items parts c =
   dialogue_loop env kw (Some 0) b items parts c"
  by (induction items arbitrary: parts c) (auto split: sum.splits)

lemma dialogue_no_cutoff:
  "dialogue_loop env kw (Some 0) b items parts c = Inr (out, n, how) \<Longrightarrow> how \<noteq> CutoffReached"
  by (induction items arbitrary: parts c) (auto split: sum.splits if_splits)

lemma budget_half_small:
  assumes "0 \<le> budget" and "budget < 2 ^ 53"
  shows "budget_half budget = budget div 2" and "\<not> float_overflow budget"
proof -
  from assms have n: "nat budget < 2 ^ 53"
    by (simp add: nat_less_iff)
  then have r: "float_round (nat budget) = nat budget"
    by (simp add: float_round_def)
  from assms(1) show "budget_half budget = budget div 2"
    by (simp add: budget_half_def r nat_div_distrib [symmetric])
  have "(2::nat) ^ 53 \<le> 2 ^ 1024"
    by (rule power_increasing) simp_all
  with n assms(1) show "\<not> float_overflow budget"
    by (simp add: float_overflow_def r)
qed





lemma half_values: "budget_half 40 = 20" "budget_half 20 = 10" "budget_half 10 = 5"
  "\<not> float_overflow 40" "\<not> float_overflow 20" "\<not> float_overflow 10"
  by (simp_all add: budget_half_small)

text \<open>
  C10. If the \<open>end\<close> index of the last archived-history entry is at least the length of
  the history, the cutoff \<open>summarized_to\<close> is 0: the scan of the dialogue lane never
  stops at the cutoff, and its result does not depend on \<open>assured_dialogue_num\<close>.
\<close>

theorem summarized_beyond_history:
  assumes "archived_history s \<noteq> []"
    and "entry_end (last (archived_history s)) = Val e"
    and "int (length (history s)) \<le> e"
  shows "summarized_to s = Some 0
    \<and> (\<forall>a. dialogue_lane env (kw\<lparr>assured_dialogue_num := a\<rparr>) budget s =
            dialogue_lane env kw budget s)
    \<and> (\<forall>out n how. dialogue_lane env kw budget s = Inr (out, n, how) \<longrightarrow> how \<noteq> CutoffReached)"
proof -
  from assms have z: "summarized_to s = Some 0"
    by (simp add: summarized_to_def)
  show ?thesis
    using dialogue_no_cutoff
    by (auto simp: z dialogue_lane_def dialogue_floor_irrelevant)
qed

theorem summarized_beyond_history_witness:
  "summarized_to over_summarized = Some 0
   \<and> dialogue_lane sample_env (default_kwargs\<lparr>assured_dialogue_num := 0\<rparr>) 40 over_summarized =
       Inr ([''Alice: hi'', ''Bob: hello''], 2, ScanComplete)"
proof -
  have a: "archived_history over_summarized \<noteq> []"
    and b: "entry_end (last (archived_history over_summarized)) = Val 5"
    and c: "int (length (history over_summarized)) \<le> 5"
    by (simp_all add: over_summarized_def)
  have d: "dialogue_loop sample_env default_kwargs (Some 0) 20
             [(1, bob_hello), (0, alice_hi)] [] 0 =
           Inr ([''Alice: hi'', ''Bob: hello''], 2, ScanComplete)"
    by (simp add: sample_env_def default_kwargs_def alice_hi_def bob_hello_def hidden_def
        skipped_by_class_def as_format_def)
  have h: "rev (enumerate 0 (history over_summarized)) = [(1, bob_hello), (0, alice_hi)]"
    by (simp add: over_summarized_def)
  from summarized_beyond_history [OF a b c, of sample_env default_kwargs 40]
  have z: "summarized_to over_summarized = Some 0"
    and i: "dialogue_lane sample_env (default_kwargs\<lparr>assured_dialogue_num := 0\<rparr>) 40 over_summarized =
            dialogue_lane sample_env default_kwargs 40 over_summarized"
    by blast+
  show ?thesis
    using z i d by (simp add: dialogue_lane_def h half_values)
qed




end
